theory Spec2Isabelle
  imports Complex_Main
begin

section \<open>Errors and outcomes\<close>

text \<open>
  A JavaScript call either returns or throws. Both outcomes carry the state that has been
  reached, so that what happened before a throw stays visible. \<open>Error msg\<close> is
  \<^verbatim>\<open>new Error(msg)\<close>; \<open>TypeError\<close> is what reading a property of
  \<^verbatim>\<open>null\<close> throws.
\<close>

datatype error = Error string | TypeError

datatype 's outcome = Returned 's | Thrown error 's

fun and_then :: "'s outcome \<Rightarrow> ('s \<Rightarrow> 's outcome) \<Rightarrow> 's outcome" where
  "and_then (Returned s) f = f s"
| "and_then (Thrown e s) f = Thrown e s"

section \<open>GraphRenderer.tsx\<close>

text \<open>
  \<^verbatim>\<open>GraphNode\<close> and \<^verbatim>\<open>GraphEdge\<close> are declared in a file that is not among the
  sources; the component reads only their \<^verbatim>\<open>id\<close>. They are records with that field
  (named \<open>id_node\<close>, \<open>id_edge\<close>: \<open>id\<close> is HOL's identity function), and every
  definition below is stated for the record schemes, so a node may carry any further fields.
\<close>

record GraphNode =
  id_node :: string

record GraphEdge =
  id_edge :: string

text \<open>What \<^verbatim>\<open>useGraph(rest)\<close> returns: \<^verbatim>\<open>{ nodes, edges, graph }\<close>.\<close>

record ('n, 'e, 'g) graph_state =
  nodes :: "'n list"
  edges :: "'e list"
  graph :: 'g

text \<open>
  The callback of the \<^verbatim>\<open>reduce\<close> in \<^verbatim>\<open>centerGraph\<close>, folded over the ids from
  the left with the accumulator \<open>acc\<close>: \<^verbatim>\<open>nodes.find(n => n.id === id)\<close> is the first
  node with that id, a node object is truthy, \<^verbatim>\<open>acc.push(node)\<close> appends, and the
  \<^verbatim>\<open>throw\<close> ends the whole reduce.
\<close>

definition not_found_message :: "string \<Rightarrow> string" where
  "not_found_message i = ''Attempted to center '' @ i @ '' but it was not found in the nodes''"

fun reduce_ids ::
  "'m GraphNode_scheme list \<Rightarrow> 'm GraphNode_scheme list \<Rightarrow> string list \<Rightarrow>
     error + 'm GraphNode_scheme list" where
  "reduce_ids ns acc [] = Inr acc"
| "reduce_ids ns acc (i # ids) =
     (case find (\<lambda>n. id_node n = i) ns of
        Some node \<Rightarrow> reduce_ids ns (acc @ [node]) ids
      | None \<Rightarrow> Inl (Error (not_found_message i)))"

text \<open>
  \<^verbatim>\<open>centerGraph(nodesToCenter?: string[])\<close>. The argument is \<open>None\<close> when it is left
  out. \<^verbatim>\<open>nodesToCenter?.length\<close> is truthy exactly for a list that is given and not
  empty. In \<^verbatim>\<open>nodesToCenter || nodes\<close> every array is truthy, the empty one too, so
  only an absent argument falls through to \<^verbatim>\<open>nodes\<close>; a given empty list is passed on
  as it is. \<open>centerNodes\<close> comes from the hook \<^verbatim>\<open>useCenterGraph\<close>, which is not among
  the sources: it is a parameter, any operation on the state \<open>'s\<close> of the view.
\<close>

definition centerGraph ::
  "('m GraphNode_scheme list \<Rightarrow> 's \<Rightarrow> 's) \<Rightarrow> 'm GraphNode_scheme list \<Rightarrow>
     string list option \<Rightarrow> 's \<Rightarrow> 's outcome" where
  "centerGraph centerNodes ns nodesToCenter s =
     (if (case nodesToCenter of None \<Rightarrow> False | Some ids \<Rightarrow> length ids \<noteq> 0) then
        (case reduce_ids ns [] (the nodesToCenter) of
           Inl e \<Rightarrow> Thrown e s
         | Inr found \<Rightarrow> Returned (centerNodes found s))
      else
        (case nodesToCenter of
           None \<Rightarrow> Returned (centerNodes ns s)
         | Some ids \<Rightarrow> Returned (centerNodes [] s)))"

text \<open>
  The \<^verbatim>\<open>onClick\<close> of a rendered node: \<^verbatim>\<open>onNodeClick?.(n.id); centerNodes([n])\<close>.
  \<open>onNodeClick\<close> is the optional prop, a callback of the host application.
\<close>

definition onClick ::
  "(string \<Rightarrow> 's \<Rightarrow> 's) option \<Rightarrow> ('m GraphNode_scheme list \<Rightarrow> 's \<Rightarrow> 's) \<Rightarrow>
     'm GraphNode_scheme \<Rightarrow> 's \<Rightarrow> 's" where
  "onClick onNodeClick centerNodes n s =
     centerNodes [n] (case onNodeClick of None \<Rightarrow> s | Some f \<Rightarrow> f (id_node n) s)"

text \<open>
  The elements of the returned fragment. A \<open>Node\<close> element holds its key, the node whose
  fields are spread into it, the graph and its \<^verbatim>\<open>onClick\<close>; an \<open>Edge\<close> element holds its
  key and the edge whose fields are spread into it.
\<close>

datatype ('n, 'e, 'g, 's) element =
  Node string 'n 'g "'s \<Rightarrow> 's"
| Edge string 'e

record ('n, 'e, 'g, 's) rendered =
  handle :: "string list option \<Rightarrow> 's \<Rightarrow> 's outcome"
  fragment :: "('n, 'e, 'g, 's) element list"

text \<open>
  The component. \<open>useGraph\<close> and \<open>useCenterGraph\<close> are the two hooks, parameters here;
  \<open>rest\<close> is the props without \<^verbatim>\<open>onNodeClick\<close>. \<open>handle\<close> is the
  \<^verbatim>\<open>centerGraph\<close> that \<^verbatim>\<open>useImperativeHandle\<close> installs on the ref.
\<close>

definition GraphRenderer ::
  "('p \<Rightarrow> ('m GraphNode_scheme, 'k GraphEdge_scheme, 'g) graph_state) \<Rightarrow>
   ('m GraphNode_scheme list \<Rightarrow> 'm GraphNode_scheme list \<Rightarrow> 's \<Rightarrow> 's) \<Rightarrow>
   (string \<Rightarrow> 's \<Rightarrow> 's) option \<Rightarrow> 'p \<Rightarrow>
   ('m GraphNode_scheme, 'k GraphEdge_scheme, 'g, 's) rendered" where
  "GraphRenderer useGraph useCenterGraph onNodeClick rest =
     (let g = useGraph rest;
          centerNodes = useCenterGraph (nodes g)
      in \<lparr>handle = centerGraph centerNodes (nodes g),
          fragment =
            map (\<lambda>n. Node (id_node n) n (graph g) (onClick onNodeClick centerNodes n)) (nodes g)
            @ map (\<lambda>e. Edge (id_edge e) e) (edges g)\<rparr>)"

text \<open>
  A view that only records what it is asked to do, for running the component on examples:
  its state is the list of the calls made so far.
\<close>

datatype 'n view_call = NodeClicked string | Centered "'n list"

definition record_click :: "string \<Rightarrow> 'n view_call list \<Rightarrow> 'n view_call list" where
  "record_click i cs = cs @ [NodeClicked i]"

definition record_center :: "'n list \<Rightarrow> 'n view_call list \<Rightarrow> 'n view_call list" where
  "record_center ns cs = cs @ [Centered ns]"

section \<open>Controls\<close>

subsection \<open>The camera-controls object, the trace of calls and the listeners\<close>

text \<open>
  \<^verbatim>\<open>CameraControls.ACTION\<close>, the mouse actions of the camera-controls library, and the
  \<^verbatim>\<open>mouseButtons\<close> object of a controls instance.
\<close>

datatype ACTION = NONE | ROTATE | TRUCK | OFFSET | DOLLY | ZOOM

record mouseButtons =
  left :: ACTION
  middle :: ACTION
  right :: ACTION
  wheel :: ACTION

text \<open>
  The only listener the component hands to the controls instance is \<^verbatim>\<open>invalidate\<close>.
  A listener list is kept as the library keeps it: in the order of registration.
\<close>

datatype camera_listener = InvalidateListener

record CameraControls =
  mouseButtons :: mouseButtons
  listeners :: "(string \<times> camera_listener) list"

text \<open>
  The calls the component makes into its collaborators (the methods \<^verbatim>\<open>truck\<close>,
  \<^verbatim>\<open>zoom\<close>, \<^verbatim>\<open>update\<close> and \<^verbatim>\<open>dispose\<close> of the controls instance,
  \<^verbatim>\<open>invalidate\<close> of the renderer, \<^verbatim>\<open>preventDefault\<close> of an event) are
  recorded in a trace, in the order they are made, with their arguments. JavaScript numbers
  are modelled by the reals; \<^verbatim>\<open>animated\<close> is an optional boolean prop and is passed on
  as it is (\<open>None\<close> is \<^verbatim>\<open>undefined\<close>).
\<close>

datatype call =
  Truck real real "bool option"
| Zoom real "bool option"
| Update real
| Dispose
| Invalidate
| PreventDefault

text \<open>\<^verbatim>\<open>new holdEvent.KeyboardKeyHold(keyCode, holdIntervalDelay)\<close>\<close>

record KeyboardKeyHold =
  keyCode :: nat
  holdIntervalDelay :: nat

definition ARROW_LEFT :: nat where "ARROW_LEFT = 37"
definition ARROW_UP :: nat where "ARROW_UP = 38"
definition ARROW_RIGHT :: nat where "ARROW_RIGHT = 39"
definition ARROW_DOWN :: nat where "ARROW_DOWN = 40"

definition leftKey :: KeyboardKeyHold where
  "leftKey = \<lparr>keyCode = ARROW_LEFT, holdIntervalDelay = 100\<rparr>"

definition rightKey :: KeyboardKeyHold where
  "rightKey = \<lparr>keyCode = ARROW_RIGHT, holdIntervalDelay = 100\<rparr>"

definition upKey :: KeyboardKeyHold where
  "upKey = \<lparr>keyCode = ARROW_UP, holdIntervalDelay = 100\<rparr>"

definition downKey :: KeyboardKeyHold where
  "downKey = \<lparr>keyCode = ARROW_DOWN, holdIntervalDelay = 100\<rparr>"

text \<open>The events the callbacks read: \<^verbatim>\<open>event.deltaTime\<close> and \<^verbatim>\<open>event.code\<close>.\<close>

record HoldEvent =
  deltaTime :: real

record KeyboardEvent =
  code :: string

text \<open>
  The callbacks that are registered as listeners are closures made by
  \<^verbatim>\<open>useCallback\<close>: a closure is its code together with the values it captured
  (\<^verbatim>\<open>animated\<close> for the pan callbacks, \<^verbatim>\<open>mode\<close> for the key callbacks), and
  \<^verbatim>\<open>useCallback\<close> hands out the same closure as long as those values stay the same.
\<close>

datatype hold_listener =
  PanLeft "bool option"
| PanRight "bool option"
| PanUp "bool option"
| PanDown "bool option"

datatype key_listener = OnKeyDown string | OnKeyUp string

text \<open>
  The state the component works on: \<^verbatim>\<open>cameraRef.current\<close> (\<open>None\<close> is
  \<^verbatim>\<open>null\<close>, the value \<^verbatim>\<open>useRef\<close> starts with), \<^verbatim>\<open>camera.zoom\<close>, the trace,
  the \<^verbatim>\<open>holding\<close> listeners of the four key-hold objects and the listeners of
  \<^verbatim>\<open>window\<close>.
\<close>

record world =
  cameraRef :: "CameraControls option"
  camera_zoom :: real
  calls :: "call list"
  holdListeners :: "(KeyboardKeyHold \<times> string \<times> hold_listener) list"
  windowListeners :: "(string \<times> key_listener) list"

text \<open>
  The state of the first render, for a camera with the given zoom:
  \<^verbatim>\<open>useRef<CameraControls | null>(null)\<close>, nothing called and nothing registered yet.
  Committing \<^verbatim>\<open><cameraControls ref={cameraRef} ... />\<close> stores the controls instance
  in the ref.
\<close>

definition first_render :: "real \<Rightarrow> world" where
  "first_render zoom =
     \<lparr>cameraRef = None, camera_zoom = zoom, calls = [], holdListeners = [],
      windowListeners = []\<rparr>"

definition attach_ref :: "CameraControls \<Rightarrow> world \<Rightarrow> world" where
  "attach_ref controls s = s\<lparr>cameraRef := Some controls\<rparr>"

text \<open>\<^verbatim>\<open>cameraRef.current?.mouseButtons.left\<close>, for reading the binding off a state.\<close>

definition left_button :: "world \<Rightarrow> ACTION option" where
  "left_button s = map_option (\<lambda>controls. left (mouseButtons controls)) (cameraRef s)"

text \<open>
  \<^verbatim>\<open>addEventListener\<close> and \<^verbatim>\<open>removeEventListener\<close> of an event target: a listener
  that is already registered for the type is not registered again, and removing takes the
  registered entry out.
\<close>

definition addEventListener :: "'a \<Rightarrow> 'a list \<Rightarrow> 'a list" where
  "addEventListener l ls = (if l \<in> set ls then ls else ls @ [l])"

definition removeEventListener :: "'a \<Rightarrow> 'a list \<Rightarrow> 'a list" where
  "removeEventListener l ls = remove1 l ls"

definition invalidate :: "world \<Rightarrow> world" where
  "invalidate s = s\<lparr>calls := calls s @ [Invalidate]\<rparr>"

definition preventDefault :: "world \<Rightarrow> world" where
  "preventDefault s = s\<lparr>calls := calls s @ [PreventDefault]\<rparr>"

text \<open>
  \<^verbatim>\<open>cameraRef.current?.m(...)\<close>: the method is called when the ref holds a controls
  instance, and nothing happens when it holds \<^verbatim>\<open>null\<close>.
\<close>

definition optional_call :: "call \<Rightarrow> world \<Rightarrow> world" where
  "optional_call c s =
     (case cameraRef s of None \<Rightarrow> s | Some controls \<Rightarrow> s\<lparr>calls := calls s @ [c]\<rparr>)"

text \<open>
  \<^verbatim>\<open>cameraRef.current.mouseButtons.left = a\<close>: there is no \<^verbatim>\<open>?.\<close> here, so a
  \<^verbatim>\<open>null\<close> ref throws a TypeError.
\<close>

definition set_left :: "ACTION \<Rightarrow> world \<Rightarrow> world outcome" where
  "set_left a s =
     (case cameraRef s of
        None \<Rightarrow> Thrown TypeError s
      | Some controls \<Rightarrow>
          Returned (s\<lparr>cameraRef :=
            Some (controls\<lparr>mouseButtons := (mouseButtons controls)\<lparr>left := a\<rparr>\<rparr>)\<rparr>))"

subsection \<open>The callbacks\<close>

definition frame :: "real \<Rightarrow> world \<Rightarrow> world" where
  "frame delta s = optional_call (Update delta) s"

definition dispose_cleanup :: "world \<Rightarrow> world" where
  "dispose_cleanup s = optional_call Dispose s"

definition zoomIn :: "bool option \<Rightarrow> world \<Rightarrow> world" where
  "zoomIn animated s = invalidate (optional_call (Zoom (camera_zoom s / 2) animated) s)"

definition zoomOut :: "bool option \<Rightarrow> world \<Rightarrow> world" where
  "zoomOut animated s = invalidate (optional_call (Zoom ((- camera_zoom s) / 2) animated) s)"

definition panRight :: "bool option \<Rightarrow> HoldEvent \<Rightarrow> world \<Rightarrow> world" where
  "panRight animated event s =
     invalidate (optional_call (Truck ((- 0.03) * deltaTime event) 0 animated) s)"

definition panLeft :: "bool option \<Rightarrow> HoldEvent \<Rightarrow> world \<Rightarrow> world" where
  "panLeft animated event s =
     invalidate (optional_call (Truck (0.03 * deltaTime event) 0 animated) s)"

definition panUp :: "bool option \<Rightarrow> HoldEvent \<Rightarrow> world \<Rightarrow> world" where
  "panUp animated event s =
     invalidate (optional_call (Truck 0 (0.03 * deltaTime event) animated) s)"

definition panDown :: "bool option \<Rightarrow> HoldEvent \<Rightarrow> world \<Rightarrow> world" where
  "panDown animated event s =
     invalidate (optional_call (Truck 0 ((- 0.03) * deltaTime event) animated) s)"

definition onKeyDown :: "string \<Rightarrow> KeyboardEvent \<Rightarrow> world \<Rightarrow> world outcome" where
  "onKeyDown mode event s =
     (if code event = ''Space'' then
        (if mode = ''rotate'' then set_left TRUCK s else set_left ROTATE s)
      else Returned s)"

definition onKeyUp :: "string \<Rightarrow> KeyboardEvent \<Rightarrow> world \<Rightarrow> world outcome" where
  "onKeyUp mode event s =
     (if code event = ''Space'' then
        (if mode = ''rotate'' then set_left ROTATE s else set_left TRUCK s)
      else Returned s)"

text \<open>What a registered closure does when its event target calls it.\<close>

fun run_hold_listener :: "hold_listener \<Rightarrow> HoldEvent \<Rightarrow> world \<Rightarrow> world" where
  "run_hold_listener (PanLeft animated) event s = panLeft animated event s"
| "run_hold_listener (PanRight animated) event s = panRight animated event s"
| "run_hold_listener (PanUp animated) event s = panUp animated event s"
| "run_hold_listener (PanDown animated) event s = panDown animated event s"

fun run_key_listener :: "key_listener \<Rightarrow> KeyboardEvent \<Rightarrow> world \<Rightarrow> world outcome" where
  "run_key_listener (OnKeyDown mode) event s = onKeyDown mode event s"
| "run_key_listener (OnKeyUp mode) event s = onKeyUp mode event s"

text \<open>
  A key-hold object dispatching an event of type \<open>ty\<close>: every listener registered on
  that object for that type is called with the event, in the order of registration.
\<close>

definition hold_listeners_of :: "KeyboardKeyHold \<Rightarrow> string \<Rightarrow> world \<Rightarrow> hold_listener list" where
  "hold_listeners_of key ty s =
     map (\<lambda>(k, t, l). l) (filter (\<lambda>(k, t, l). k = key \<and> t = ty) (holdListeners s))"

definition dispatch_hold :: "KeyboardKeyHold \<Rightarrow> string \<Rightarrow> HoldEvent \<Rightarrow> world \<Rightarrow> world" where
  "dispatch_hold key ty event s =
     foldl (\<lambda>s' l. run_hold_listener l event s') s (hold_listeners_of key ty s)"

text \<open>
  The window dispatching a keyboard event of type \<open>ty\<close>: every listener registered
  for that type is called with the event, in the order of registration. An error that a
  listener throws is reported and the listeners after it still run; the result is the
  list of the reported errors and the state that is reached.
\<close>

fun run_key_listeners ::
  "key_listener list \<Rightarrow> KeyboardEvent \<Rightarrow> world \<Rightarrow> error list \<times> world" where
  "run_key_listeners [] event s = ([], s)"
| "run_key_listeners (l # ls) event s =
     (case run_key_listener l event s of
        Returned s' \<Rightarrow> run_key_listeners ls event s'
      | Thrown e s' \<Rightarrow>
          (case run_key_listeners ls event s' of (es, s'') \<Rightarrow> (e # es, s'')))"

definition dispatch_window :: "string \<Rightarrow> KeyboardEvent \<Rightarrow> world \<Rightarrow> error list \<times> world" where
  "dispatch_window ty event s =
     run_key_listeners
       (map (\<lambda>(t, l). l) (filter (\<lambda>(t, l). t = ty) (windowListeners s))) event s"

subsection \<open>The effects\<close>

text \<open>
  The effect that registers the key listeners, and the cleanup it returns. Both refer to
  the six callbacks of the render they belong to.
\<close>

definition key_listener_effect ::
  "hold_listener \<Rightarrow> hold_listener \<Rightarrow> hold_listener \<Rightarrow> hold_listener \<Rightarrow>
     key_listener \<Rightarrow> key_listener \<Rightarrow> world \<Rightarrow> world" where
  "key_listener_effect panLeft' panRight' panUp' panDown' onKeyDown' onKeyUp' s =
     s\<lparr>holdListeners :=
         addEventListener (downKey, ''holding'', panDown')
           (addEventListener (upKey, ''holding'', panUp')
             (addEventListener (rightKey, ''holding'', panRight')
               (addEventListener (leftKey, ''holding'', panLeft') (holdListeners s)))),
       windowListeners :=
         addEventListener (''keyup'', onKeyUp')
           (addEventListener (''keydown'', onKeyDown') (windowListeners s))\<rparr>"

definition key_listener_cleanup ::
  "hold_listener \<Rightarrow> hold_listener \<Rightarrow> hold_listener \<Rightarrow> hold_listener \<Rightarrow>
     key_listener \<Rightarrow> key_listener \<Rightarrow> world \<Rightarrow> world" where
  "key_listener_cleanup panLeft' panRight' panUp' panDown' onKeyDown' onKeyUp' s =
     s\<lparr>holdListeners :=
         removeEventListener (downKey, ''holding'', panDown')
           (removeEventListener (upKey, ''holding'', panUp')
             (removeEventListener (rightKey, ''holding'', panRight')
               (removeEventListener (leftKey, ''holding'', panLeft') (holdListeners s)))),
       windowListeners :=
         removeEventListener (''keyup'', onKeyUp')
           (removeEventListener (''keydown'', onKeyDown') (windowListeners s))\<rparr>"

text \<open>
  The effect written to pass the controls' \<^verbatim>\<open>update\<close> and \<^verbatim>\<open>control\<close> events
  on to \<^verbatim>\<open>invalidate\<close>. \<^verbatim>\<open>const ref = cameraRef.current; if (!ref) { ... }\<close>: the
  body runs when \<open>ref\<close> is \<^verbatim>\<open>null\<close>, and its first statement reads
  \<^verbatim>\<open>ref.addEventListener\<close>.
\<close>

definition update_control_effect :: "world \<Rightarrow> world outcome" where
  "update_control_effect s =
     (let ref = cameraRef s in
      if ref = None then
        (case ref of
           None \<Rightarrow> Thrown TypeError s
         | Some controls \<Rightarrow>
             Returned (s\<lparr>cameraRef := Some (controls\<lparr>listeners :=
               addEventListener (''control'', InvalidateListener)
                 (addEventListener (''update'', InvalidateListener) (listeners controls))\<rparr>)\<rparr>))
      else Returned s)"

text \<open>The effect that follows \<^verbatim>\<open>mode\<close>.\<close>

definition mode_effect :: "string \<Rightarrow> world \<Rightarrow> world outcome" where
  "mode_effect mode s =
     (if mode = ''rotate'' then set_left ROTATE s else set_left TRUCK s)"

subsection \<open>Hotkeys, the exposed values and the component\<close>

record hotkey =
  name :: string
  keys :: string
  callback :: "world \<Rightarrow> world"

definition hotkeys :: "bool option \<Rightarrow> hotkey list" where
  "hotkeys animated =
     [\<lparr>name = ''Zoom In'', keys = ''command+shift+i'',
        callback = (\<lambda>s. zoomIn animated (preventDefault s))\<rparr>,
      \<lparr>name = ''Zoom Out'', keys = ''command+shift+o'',
        callback = (\<lambda>s. zoomOut animated (preventDefault s))\<rparr>]"

text \<open>
  The hotkey library calling the callbacks registered for a key combination, in the order
  of registration.
\<close>

definition press_hotkey :: "string \<Rightarrow> hotkey list \<Rightarrow> world \<Rightarrow> world" where
  "press_hotkey combination hs s =
     foldl (\<lambda>s' h. callback h s') s (filter (\<lambda>h. keys h = combination) hs)"

text \<open>\<^verbatim>\<open>values\<close>, the object given both to the ref and to the context provider.\<close>

record ControlsContextProps =
  ctx_controls :: "CameraControls option"
  ctx_zoomIn :: "world \<Rightarrow> world"
  ctx_zoomOut :: "world \<Rightarrow> world"
  ctx_panLeft :: "world \<Rightarrow> world"
  ctx_panRight :: "world \<Rightarrow> world"
  ctx_panDown :: "world \<Rightarrow> world"
  ctx_panUp :: "world \<Rightarrow> world"

definition values_of :: "bool option \<Rightarrow> world \<Rightarrow> ControlsContextProps" where
  "values_of animated s =
     \<lparr>ctx_controls = cameraRef s,
      ctx_zoomIn = (\<lambda>s'. zoomIn animated s'),
      ctx_zoomOut = (\<lambda>s'. zoomOut animated s'),
      ctx_panLeft = (\<lambda>s'. panLeft animated \<lparr>deltaTime = 1\<rparr> s'),
      ctx_panRight = (\<lambda>s'. panRight animated \<lparr>deltaTime = 1\<rparr> s'),
      ctx_panDown = (\<lambda>s'. panDown animated \<lparr>deltaTime = 1\<rparr> s'),
      ctx_panUp = (\<lambda>s'. panUp animated \<lparr>deltaTime = 1\<rparr> s')\<rparr>"

text \<open>
  The props, with \<^verbatim>\<open>Controls.defaultProps = { mode: 'rotate' }\<close>: a prop that is left
  out takes its default.
\<close>

record ControlsProps =
  props_mode :: "string option"
  props_animated :: "bool option"

definition defaultProps_mode :: string where
  "defaultProps_mode = ''rotate''"

definition mode_of :: "ControlsProps \<Rightarrow> string" where
  "mode_of props = (case props_mode props of None \<Rightarrow> defaultProps_mode | Some mode \<Rightarrow> mode)"

text \<open>
  One render of the component, in the state \<open>s\<close>: what it hands to
  \<^verbatim>\<open>useFrame\<close>, the effects with their cleanups in the order they are declared, the
  hotkeys, and \<^verbatim>\<open>values\<close> as the imperative handle and as the context value.
\<close>

record Controls_render =
  on_frame :: "real \<Rightarrow> world \<Rightarrow> world"
  unmount_cleanup :: "world \<Rightarrow> world"
  key_effect :: "world \<Rightarrow> world"
  key_cleanup :: "world \<Rightarrow> world"
  listen_effect :: "world \<Rightarrow> world outcome"
  binding_effect :: "world \<Rightarrow> world outcome"
  registered_hotkeys :: "hotkey list"
  imperative_handle :: ControlsContextProps
  context_value :: ControlsContextProps

definition Controls :: "ControlsProps \<Rightarrow> world \<Rightarrow> Controls_render" where
  "Controls props s =
     (let mode = mode_of props;
          animated = props_animated props;
          vals = values_of animated s
      in \<lparr>on_frame = frame,
          unmount_cleanup = dispose_cleanup,
          key_effect =
            key_listener_effect (PanLeft animated) (PanRight animated) (PanUp animated)
              (PanDown animated) (OnKeyDown mode) (OnKeyUp mode),
          key_cleanup =
            key_listener_cleanup (PanLeft animated) (PanRight animated) (PanUp animated)
              (PanDown animated) (OnKeyDown mode) (OnKeyUp mode),
          listen_effect = update_control_effect,
          binding_effect = mode_effect mode,
          registered_hotkeys = hotkeys animated,
          imperative_handle = vals,
          context_value = vals\<rparr>)"

section \<open>Properties of GraphRenderer\<close>

subsection \<open>The reduce over the ids\<close>

lemma reduce_ids_found:
  "\<forall>i\<in>set ids. \<exists>n\<in>set ns. id_node n = i \<Longrightarrow>
   reduce_ids ns acc ids = Inr (acc @ map (\<lambda>i. the (find (\<lambda>n. id_node n = i) ns)) ids)"
proof (induction ids arbitrary: acc)
  case Nil
  then show ?case by simp
next
  case (Cons i ids)
  from Cons.prems obtain n where "n \<in> set ns" "id_node n = i" by auto
  then have "find (\<lambda>n. id_node n = i) ns \<noteq> None"
    by (auto simp: find_None_iff)
  then obtain m where m: "find (\<lambda>n. id_node n = i) ns = Some m" by auto
  with Cons show ?case by simp
qed

lemma reduce_ids_missing:
  "find (\<lambda>i. \<forall>n\<in>set ns. id_node n \<noteq> i) ids = Some bad \<Longrightarrow>
   reduce_ids ns acc ids = Inl (Error (not_found_message bad))"
proof (induction ids arbitrary: acc)
  case Nil
  then show ?case by simp
next
  case (Cons i ids)
  show ?case
  proof (cases "\<forall>n\<in>set ns. id_node n \<noteq> i")
    case True
    then have "find (\<lambda>n. id_node n = i) ns = None"
      by (auto simp: find_None_iff)
    moreover from True Cons.prems have "bad = i" by simp
    ultimately show ?thesis by simp
  next
    case False
    then have "find (\<lambda>n. id_node n = i) ns \<noteq> None"
      by (auto simp: find_None_iff)
    then obtain m where m: "find (\<lambda>n. id_node n = i) ns = Some m" by auto
    from False Cons.prems have "find (\<lambda>i. \<forall>n\<in>set ns. id_node n \<noteq> i) ids = Some bad"
      by (simp split: if_splits)
    with Cons.IH m show ?thesis by simp
  qed
qed

subsection \<open>centerGraph\<close>

text \<open>
  With a list of ids that is not empty and names only nodes of the list,
  \<open>centerNodes\<close> gets the first node of each id, in the order of the ids; with no
  argument it gets the whole list of nodes; with the empty list it gets the empty list.
\<close>

lemma centerGraph_known_ids:
  assumes "ids \<noteq> []" and "\<forall>i\<in>set ids. \<exists>n\<in>set ns. id_node n = i"
  shows "centerGraph centerNodes ns (Some ids) s =
    Returned (centerNodes (map (\<lambda>i. the (find (\<lambda>n. id_node n = i) ns)) ids) s)"
  using assms by (simp add: centerGraph_def reduce_ids_found)

lemma centerGraph_absent:
  "centerGraph centerNodes ns None s = Returned (centerNodes ns s)"
  by (simp add: centerGraph_def)

lemma centerGraph_empty:
  "centerGraph centerNodes ns (Some []) s = Returned (centerNodes [] s)"
  by (simp add: centerGraph_def)

text \<open>
  C1. The claim: for a list of ids that is not empty and names only nodes,
  \<open>centerNodes\<close> is called with the matching nodes in the order of the ids, and for an
  absent or empty list it is called with the full list of nodes. The first and the absent
  case are \<open>centerGraph_known_ids\<close> and \<open>centerGraph_absent\<close>. The empty list
  is where the code departs: with the nodes \<open>a\<close> and \<open>b\<close>, calling the handle's
  \<open>centerGraph\<close> with \<open>[]\<close> makes one call of \<open>centerNodes\<close>, with the
  empty list and not with the two nodes.
\<close>

theorem centerGraph_empty_list_centers_nothing:
  "handle (GraphRenderer (\<lambda>p. p) (\<lambda>ns. record_center) None
       \<lparr>nodes = [\<lparr>id_node = ''a''\<rparr>, \<lparr>id_node = ''b''\<rparr>], edges = [\<lparr>id_edge = ''a-b''\<rparr>],
        graph = ()\<rparr>) (Some []) []
     = Returned [Centered []]
   \<and> handle (GraphRenderer (\<lambda>p. p) (\<lambda>ns. record_center) None
       \<lparr>nodes = [\<lparr>id_node = ''a''\<rparr>, \<lparr>id_node = ''b''\<rparr>], edges = [\<lparr>id_edge = ''a-b''\<rparr>],
        graph = ()\<rparr>) (Some []) []
     \<noteq> Returned [Centered [\<lparr>id_node = ''a''\<rparr>, \<lparr>id_node = ''b''\<rparr>]]"
  by (simp add: GraphRenderer_def Let_def centerGraph_def record_center_def)

text \<open>
  C2. When the list of ids given to the handle's \<open>centerGraph\<close> holds an id that no
  node of the current list has, the call throws the Error whose message names the first
  such id of the list, and the state it throws in is the state it was called in, whatever
  \<open>centerNodes\<close> does: \<open>centerNodes\<close> has not been called.
\<close>

theorem centerGraph_unknown_id_throws:
  assumes "i \<in> set ids" and "\<forall>n\<in>set (nodes (useGraph rest)). id_node n \<noteq> i"
  shows "\<exists>bad. find (\<lambda>i. \<forall>n\<in>set (nodes (useGraph rest)). id_node n \<noteq> i) ids = Some bad
    \<and> handle (GraphRenderer useGraph useCenterGraph onNodeClick rest) (Some ids) s =
        Thrown (Error (''Attempted to center '' @ bad @ '' but it was not found in the nodes'')) s"
proof -
  let ?ns = "nodes (useGraph rest)"
  from assms have "find (\<lambda>i. \<forall>n\<in>set ?ns. id_node n \<noteq> i) ids \<noteq> None"
    by (auto simp: find_None_iff)
  then obtain bad where bad: "find (\<lambda>i. \<forall>n\<in>set ?ns. id_node n \<noteq> i) ids = Some bad"
    by auto
  from assms(1) have "ids \<noteq> []" by auto
  with reduce_ids_missing [OF bad, of "[]"]
  have "centerGraph (useCenterGraph ?ns) ?ns (Some ids) s =
      Thrown (Error (not_found_message bad)) s"
    by (simp add: centerGraph_def)
  with bad show ?thesis by (simp add: not_found_message_def GraphRenderer_def Let_def)
qed

text \<open>
  The ids \<open>b, x, a, y\<close> over the nodes \<open>a\<close> and \<open>b\<close>: the error names
  \<open>x\<close>, and nothing has been recorded.
\<close>

theorem centerGraph_unknown_id_throws_witness:
  "handle (GraphRenderer (\<lambda>p. p) (\<lambda>ns. record_center) None
       \<lparr>nodes = [\<lparr>id_node = ''a''\<rparr>, \<lparr>id_node = ''b''\<rparr>], edges = [\<lparr>id_edge = ''a-b''\<rparr>],
        graph = ()\<rparr>) (Some [''b'', ''x'', ''a'', ''y'']) []
   = Thrown (Error ''Attempted to center x but it was not found in the nodes'') []"
  using centerGraph_unknown_id_throws
    [of "''y''" "[''b'', ''x'', ''a'', ''y'']" "\<lambda>p. p"
        "\<lparr>nodes = [\<lparr>id_node = ''a''\<rparr>, \<lparr>id_node = ''b''\<rparr>], edges = [\<lparr>id_edge = ''a-b''\<rparr>],
          graph = ()\<rparr>" "\<lambda>ns. record_center" None "[]"]
  by simp

subsection \<open>The rendered fragment\<close>

text \<open>
  C3. For every props value, with \<open>g\<close> what \<^verbatim>\<open>useGraph\<close> returns for it: the
  fragment has one element per node followed by one element per edge and nothing else;
  its \<open>i\<close>-th element is the \<open>Node\<close> element of the \<open>i\<close>-th node, with the node's
  id as key, the node's fields and the graph; after the node elements, its \<open>j\<close>-th
  element is the \<open>Edge\<close> element of the \<open>j\<close>-th edge, with the edge's id as key.
\<close>

theorem GraphRenderer_renders_one_to_one:
  "let g = useGraph rest;
       r = GraphRenderer useGraph useCenterGraph onNodeClick rest
   in length (fragment r) = length (nodes g) + length (edges g)
    \<and> (\<forall>i < length (nodes g).
         fragment r ! i =
           Node (id_node (nodes g ! i)) (nodes g ! i) (graph g)
             (onClick onNodeClick (useCenterGraph (nodes g)) (nodes g ! i)))
    \<and> (\<forall>j < length (edges g).
         fragment r ! (length (nodes g) + j) = Edge (id_edge (edges g ! j)) (edges g ! j))"
  by (simp add: GraphRenderer_def Let_def nth_append)

text \<open>Two nodes and one edge, with \<^verbatim>\<open>useGraph\<close> handing the lists on as they are.\<close>

theorem GraphRenderer_renders_one_to_one_witness:
  "fragment (GraphRenderer (\<lambda>p. p) (\<lambda>ns. record_center) None
       \<lparr>nodes = [\<lparr>id_node = ''a''\<rparr>, \<lparr>id_node = ''b''\<rparr>], edges = [\<lparr>id_edge = ''a-b''\<rparr>],
        graph = ()\<rparr>)
   = [Node ''a'' \<lparr>id_node = ''a''\<rparr> () (onClick None record_center \<lparr>id_node = ''a''\<rparr>),
      Node ''b'' \<lparr>id_node = ''b''\<rparr> () (onClick None record_center \<lparr>id_node = ''b''\<rparr>),
      Edge ''a-b'' \<lparr>id_edge = ''a-b''\<rparr>]"
proof -
  let ?p = "\<lparr>nodes = [\<lparr>id_node = ''a''\<rparr>, \<lparr>id_node = ''b''\<rparr>], edges = [\<lparr>id_edge = ''a-b''\<rparr>],
        graph = ()\<rparr>"
  let ?r = "GraphRenderer (\<lambda>p. p) (\<lambda>ns. record_center) None ?p"
  have *: "length (fragment ?r) = 3"
    "fragment ?r ! 0 = Node ''a'' \<lparr>id_node = ''a''\<rparr> () (onClick None record_center \<lparr>id_node = ''a''\<rparr>)"
    "fragment ?r ! 1 = Node ''b'' \<lparr>id_node = ''b''\<rparr> () (onClick None record_center \<lparr>id_node = ''b''\<rparr>)"
    "fragment ?r ! 2 = Edge ''a-b'' \<lparr>id_edge = ''a-b''\<rparr>"
    using GraphRenderer_renders_one_to_one [of "\<lambda>p. p" ?p "\<lambda>ns. record_center" None]
    by (simp_all add: Let_def All_less_Suc2 numeral_2_eq_2)
  show ?thesis
    by (rule nth_equalityI) (use * in \<open>auto simp: less_Suc_eq numeral_3_eq_3 numeral_2_eq_2\<close>)
qed

text \<open>
  C4. The \<^verbatim>\<open>onClick\<close> of the element rendered for a node first calls
  \<open>onNodeClick\<close>, when there is one, with the id of that node, and then calls
  \<open>centerNodes\<close> with the list that holds that node alone.
\<close>

theorem node_click_notifies_then_centers:
  "let g = useGraph rest;
       r = GraphRenderer useGraph useCenterGraph onNodeClick rest;
       centerNodes = useCenterGraph (nodes g)
   in \<forall>i < length (nodes g). \<exists>key gr click.
        fragment r ! i = Node key (nodes g ! i) gr click
      \<and> (\<forall>s. click s =
            (case onNodeClick of
               None \<Rightarrow> centerNodes [nodes g ! i] s
             | Some notify \<Rightarrow> centerNodes [nodes g ! i] (notify (id_node (nodes g ! i)) s)))"
  by (auto simp: GraphRenderer_def Let_def nth_append onClick_def split: option.splits)

text \<open>Clicking the second node of two, with callbacks that record their calls.\<close>

theorem node_click_notifies_then_centers_witness:
  "\<exists>key gr click.
     fragment (GraphRenderer (\<lambda>p. p) (\<lambda>ns. record_center) (Some record_click)
       \<lparr>nodes = [\<lparr>id_node = ''a''\<rparr>, \<lparr>id_node = ''b''\<rparr>], edges = [\<lparr>id_edge = ''a-b''\<rparr>],
        graph = ()\<rparr>) ! 1 = Node key \<lparr>id_node = ''b''\<rparr> gr click
   \<and> click [] = [NodeClicked ''b'', Centered [\<lparr>id_node = ''b''\<rparr>]]"
  using node_click_notifies_then_centers [of "\<lambda>p. p"
      "\<lparr>nodes = [\<lparr>id_node = ''a''\<rparr>, \<lparr>id_node = ''b''\<rparr>], edges = [\<lparr>id_edge = ''a-b''\<rparr>],
        graph = ()\<rparr>" "\<lambda>ns. record_center" "Some record_click"]
  by (fastforce simp: Let_def All_less_Suc2 record_click_def record_center_def)

section \<open>Properties of Controls\<close>

subsection \<open>Calls through the camera ref\<close>

lemma optional_call_attached:
  "cameraRef s = Some controls \<Longrightarrow> optional_call c s = s\<lparr>calls := calls s @ [c]\<rparr>"
  by (simp add: optional_call_def)

lemma optional_call_null:
  "cameraRef s = None \<Longrightarrow> optional_call c s = s"
  by (simp add: optional_call_def)

subsection \<open>Panning\<close>

text \<open>
  C5, as stated, fails in the state of the first render, where the camera ref is still
  \<^verbatim>\<open>null\<close>: each pan callback, called with \<open>deltaTime = 2\<close>, calls
  \<^verbatim>\<open>invalidate\<close> and nothing else, so no truck is commanded.
\<close>

theorem pan_null_ref_no_truck:
  "calls (panLeft None \<lparr>deltaTime = 2\<rparr> (first_render 1)) = [Invalidate]
   \<and> calls (panRight None \<lparr>deltaTime = 2\<rparr> (first_render 1)) = [Invalidate]
   \<and> calls (panUp None \<lparr>deltaTime = 2\<rparr> (first_render 1)) = [Invalidate]
   \<and> calls (panDown None \<lparr>deltaTime = 2\<rparr> (first_render 1)) = [Invalidate]"
  by (simp add: panLeft_def panRight_def panUp_def panDown_def first_render_def
      optional_call_def invalidate_def)

text \<open>
  C5, amended. For every \<open>deltaTime\<close>, \<open>animated\<close> and state: when the camera ref
  holds a controls instance, \<open>panLeft\<close> calls \<^verbatim>\<open>truck\<close> with
  \<open>(0.03 * deltaTime, 0)\<close>, \<open>panRight\<close> with \<open>(- 0.03 * deltaTime, 0)\<close>,
  \<open>panUp\<close> with \<open>(0, 0.03 * deltaTime)\<close> and \<open>panDown\<close> with
  \<open>(0, - 0.03 * deltaTime)\<close>, each passing \<open>animated\<close> on and each followed by
  \<^verbatim>\<open>invalidate\<close>, and nothing else changes; when the ref is \<^verbatim>\<open>null\<close>, each of
  them calls \<^verbatim>\<open>invalidate\<close> only.
\<close>

theorem pan_trucks_when_attached:
  "(cameraRef s \<noteq> None \<longrightarrow>
      panLeft animated event s =
        s\<lparr>calls := calls s @ [Truck (0.03 * deltaTime event) 0 animated, Invalidate]\<rparr>
    \<and> panRight animated event s =
        s\<lparr>calls := calls s @ [Truck (- (0.03 * deltaTime event)) 0 animated, Invalidate]\<rparr>
    \<and> panUp animated event s =
        s\<lparr>calls := calls s @ [Truck 0 (0.03 * deltaTime event) animated, Invalidate]\<rparr>
    \<and> panDown animated event s =
        s\<lparr>calls := calls s @ [Truck 0 (- (0.03 * deltaTime event)) animated, Invalidate]\<rparr>)
   \<and> (cameraRef s = None \<longrightarrow>
      panLeft animated event s = s\<lparr>calls := calls s @ [Invalidate]\<rparr>
    \<and> panRight animated event s = s\<lparr>calls := calls s @ [Invalidate]\<rparr>
    \<and> panUp animated event s = s\<lparr>calls := calls s @ [Invalidate]\<rparr>
    \<and> panDown animated event s = s\<lparr>calls := calls s @ [Invalidate]\<rparr>)"
  by (cases "cameraRef s")
    (simp_all add: panLeft_def panRight_def panUp_def panDown_def optional_call_def
      invalidate_def)

text \<open>Both cases at \<open>deltaTime = 2\<close>: a ref that holds an instance, and the first render.\<close>

theorem pan_trucks_when_attached_witness:
  "calls (panLeft (Some True) \<lparr>deltaTime = 2\<rparr>
       (attach_ref \<lparr>mouseButtons = \<lparr>left = ROTATE, middle = DOLLY, right = TRUCK, wheel = ZOOM\<rparr>,
          listeners = []\<rparr> (first_render 1)))
     = [Truck 0.06 0 (Some True), Invalidate]
   \<and> calls (panDown (Some True) \<lparr>deltaTime = 2\<rparr>
       (attach_ref \<lparr>mouseButtons = \<lparr>left = ROTATE, middle = DOLLY, right = TRUCK, wheel = ZOOM\<rparr>,
          listeners = []\<rparr> (first_render 1)))
     = [Truck 0 (- 0.06) (Some True), Invalidate]
   \<and> calls (panRight None \<lparr>deltaTime = 2\<rparr> (first_render 1)) = [Invalidate]"
  using pan_trucks_when_attached
    [of "attach_ref \<lparr>mouseButtons = \<lparr>left = ROTATE, middle = DOLLY, right = TRUCK, wheel = ZOOM\<rparr>,
          listeners = []\<rparr> (first_render 1)" "Some True" "\<lparr>deltaTime = 2\<rparr>"]
    pan_trucks_when_attached [of "first_render 1" None "\<lparr>deltaTime = 2\<rparr>"]
  by (simp add: attach_ref_def first_render_def)

subsection \<open>Zooming and the exposed values\<close>

text \<open>
  C6, as stated, fails in the state of the first render, where the camera ref is still
  \<^verbatim>\<open>null\<close>: \<open>zoomIn\<close> and \<open>zoomOut\<close> call \<^verbatim>\<open>invalidate\<close> and nothing
  else, so the controls' \<^verbatim>\<open>zoom\<close> is not called.
\<close>

theorem zoom_null_ref_no_zoom:
  "calls (zoomIn None (first_render 4)) = [Invalidate]
   \<and> calls (zoomOut None (first_render 4)) = [Invalidate]"
  by (simp add: zoomIn_def zoomOut_def first_render_def optional_call_def invalidate_def)

text \<open>
  C6, amended. When the camera ref holds a controls instance, \<open>zoomIn\<close> calls the
  controls' \<^verbatim>\<open>zoom\<close> with \<open>camera.zoom / 2\<close> and \<open>zoomOut\<close> calls it with
  \<open>- camera.zoom / 2\<close>, each passing \<open>animated\<close> on and each followed by
  \<^verbatim>\<open>invalidate\<close>; when the ref is \<^verbatim>\<open>null\<close>, each calls \<^verbatim>\<open>invalidate\<close> only.
  The imperative handle and the context value are the same object; it holds the ref's
  value of the render, \<open>zoomIn\<close>, \<open>zoomOut\<close>, and the four pan operations with
  \<open>deltaTime\<close> fixed to 1.
\<close>

theorem zoom_steps_and_exposed_values:
  "(cameraRef s \<noteq> None \<longrightarrow>
      zoomIn animated s = s\<lparr>calls := calls s @ [Zoom (camera_zoom s / 2) animated, Invalidate]\<rparr>
    \<and> zoomOut animated s =
        s\<lparr>calls := calls s @ [Zoom (- camera_zoom s / 2) animated, Invalidate]\<rparr>)
   \<and> (cameraRef s = None \<longrightarrow>
      zoomIn animated s = s\<lparr>calls := calls s @ [Invalidate]\<rparr>
    \<and> zoomOut animated s = s\<lparr>calls := calls s @ [Invalidate]\<rparr>)
   \<and> (let r = Controls props s0; animated = props_animated props
      in imperative_handle r = context_value r
       \<and> ctx_controls (context_value r) = cameraRef s0
       \<and> ctx_zoomIn (context_value r) = zoomIn animated
       \<and> ctx_zoomOut (context_value r) = zoomOut animated
       \<and> ctx_panLeft (context_value r) = panLeft animated \<lparr>deltaTime = 1\<rparr>
       \<and> ctx_panRight (context_value r) = panRight animated \<lparr>deltaTime = 1\<rparr>
       \<and> ctx_panDown (context_value r) = panDown animated \<lparr>deltaTime = 1\<rparr>
       \<and> ctx_panUp (context_value r) = panUp animated \<lparr>deltaTime = 1\<rparr>)"
proof -
  have "cameraRef s \<noteq> None \<longrightarrow>
      zoomIn animated s = s\<lparr>calls := calls s @ [Zoom (camera_zoom s / 2) animated, Invalidate]\<rparr>
    \<and> zoomOut animated s =
        s\<lparr>calls := calls s @ [Zoom (- camera_zoom s / 2) animated, Invalidate]\<rparr>"
    by (cases "cameraRef s") (simp_all add: zoomIn_def zoomOut_def optional_call_def invalidate_def)
  moreover have "cameraRef s = None \<longrightarrow>
      zoomIn animated s = s\<lparr>calls := calls s @ [Invalidate]\<rparr>
    \<and> zoomOut animated s = s\<lparr>calls := calls s @ [Invalidate]\<rparr>"
    by (simp add: zoomIn_def zoomOut_def optional_call_def invalidate_def)
  moreover have "let r = Controls props s0; animated = props_animated props
      in imperative_handle r = context_value r
       \<and> ctx_controls (context_value r) = cameraRef s0
       \<and> ctx_zoomIn (context_value r) = zoomIn animated
       \<and> ctx_zoomOut (context_value r) = zoomOut animated
       \<and> ctx_panLeft (context_value r) = panLeft animated \<lparr>deltaTime = 1\<rparr>
       \<and> ctx_panRight (context_value r) = panRight animated \<lparr>deltaTime = 1\<rparr>
       \<and> ctx_panDown (context_value r) = panDown animated \<lparr>deltaTime = 1\<rparr>
       \<and> ctx_panUp (context_value r) = panUp animated \<lparr>deltaTime = 1\<rparr>"
    by (simp add: Controls_def values_of_def Let_def)
  ultimately show ?thesis by blast
qed

text \<open>
  A camera of zoom 4: through the handle and the context value the steps are 2 and \<open>- 2\<close>
  when the ref holds an instance, and there is no step when it does not.
\<close>

theorem zoom_steps_and_exposed_values_witness:
  "calls (ctx_zoomIn (imperative_handle (Controls \<lparr>props_mode = None, props_animated = Some True\<rparr>
        (first_render 4)))
      (attach_ref \<lparr>mouseButtons = \<lparr>left = ROTATE, middle = DOLLY, right = TRUCK, wheel = ZOOM\<rparr>,
          listeners = []\<rparr> (first_render 4)))
     = [Zoom 2 (Some True), Invalidate]
   \<and> calls (ctx_zoomOut (context_value (Controls \<lparr>props_mode = None, props_animated = Some True\<rparr>
        (first_render 4)))
      (attach_ref \<lparr>mouseButtons = \<lparr>left = ROTATE, middle = DOLLY, right = TRUCK, wheel = ZOOM\<rparr>,
          listeners = []\<rparr> (first_render 4)))
     = [Zoom (- 2) (Some True), Invalidate]
   \<and> calls (ctx_zoomIn (context_value (Controls \<lparr>props_mode = None, props_animated = Some True\<rparr>
        (first_render 4))) (first_render 4))
     = [Invalidate]"
  using zoom_steps_and_exposed_values
    [of "attach_ref \<lparr>mouseButtons = \<lparr>left = ROTATE, middle = DOLLY, right = TRUCK, wheel = ZOOM\<rparr>,
          listeners = []\<rparr> (first_render 4)" "Some True"
        "\<lparr>props_mode = None, props_animated = Some True\<rparr>" "first_render 4"]
    zoom_steps_and_exposed_values
    [of "first_render 4" "Some True"
        "\<lparr>props_mode = None, props_animated = Some True\<rparr>" "first_render 4"]
  by (simp add: Let_def attach_ref_def first_render_def)

subsection \<open>Frames, hotkeys and unmounting\<close>

text \<open>
  C9, as stated, fails in the state of the first render, where the camera ref is still
  \<^verbatim>\<open>null\<close>: a frame calls no \<^verbatim>\<open>update\<close>, and the cleanup that runs on unmount
  calls no \<^verbatim>\<open>dispose\<close>.
\<close>

theorem frame_null_ref_no_update:
  "calls (on_frame (Controls \<lparr>props_mode = None, props_animated = None\<rparr> (first_render 1)) 16
      (first_render 1)) = []
   \<and> calls (unmount_cleanup (Controls \<lparr>props_mode = None, props_animated = None\<rparr> (first_render 1))
      (first_render 1)) = []"
  by (simp add: Controls_def Let_def frame_def dispose_cleanup_def optional_call_def
      first_render_def)

text \<open>
  C9, amended. When the camera ref holds a controls instance, every frame calls the
  controls' \<^verbatim>\<open>update\<close> with the frame's delta and the cleanup that runs on unmount
  calls \<^verbatim>\<open>dispose\<close>; when the ref is \<^verbatim>\<open>null\<close>, neither calls anything. The
  registered hotkeys are \<open>command+shift+i\<close> and \<open>command+shift+o\<close>; pressing the first
  calls \<^verbatim>\<open>preventDefault\<close> and then \<open>zoomIn\<close>, pressing the second calls
  \<^verbatim>\<open>preventDefault\<close> and then \<open>zoomOut\<close>.
\<close>

theorem frame_hotkeys_and_dispose:
  "let r = Controls props s0; animated = props_animated props
   in (cameraRef s \<noteq> None \<longrightarrow>
         on_frame r delta s = s\<lparr>calls := calls s @ [Update delta]\<rparr>
       \<and> unmount_cleanup r s = s\<lparr>calls := calls s @ [Dispose]\<rparr>
       \<and> press_hotkey ''command+shift+i'' (registered_hotkeys r) s =
           s\<lparr>calls := calls s @ [PreventDefault, Zoom (camera_zoom s / 2) animated, Invalidate]\<rparr>
       \<and> press_hotkey ''command+shift+o'' (registered_hotkeys r) s =
           s\<lparr>calls := calls s @ [PreventDefault, Zoom (- camera_zoom s / 2) animated, Invalidate]\<rparr>)
    \<and> (cameraRef s = None \<longrightarrow> on_frame r delta s = s \<and> unmount_cleanup r s = s)
    \<and> map keys (registered_hotkeys r) = [''command+shift+i'', ''command+shift+o'']
    \<and> press_hotkey ''command+shift+i'' (registered_hotkeys r) s = zoomIn animated (preventDefault s)
    \<and> press_hotkey ''command+shift+o'' (registered_hotkeys r) s = zoomOut animated (preventDefault s)"
proof -
  have keys: "map keys (hotkeys a) = [''command+shift+i'', ''command+shift+o'']" for a
    by (simp add: hotkeys_def)
  have pi: "press_hotkey ''command+shift+i'' (hotkeys a) s = zoomIn a (preventDefault s)" for a
    by (simp add: press_hotkey_def hotkeys_def)
  have po: "press_hotkey ''command+shift+o'' (hotkeys a) s = zoomOut a (preventDefault s)" for a
    by (simp add: press_hotkey_def hotkeys_def)
  have att: "cameraRef s \<noteq> None \<Longrightarrow>
         frame delta s = s\<lparr>calls := calls s @ [Update delta]\<rparr>
       \<and> dispose_cleanup s = s\<lparr>calls := calls s @ [Dispose]\<rparr>
       \<and> zoomIn a (preventDefault s) =
           s\<lparr>calls := calls s @ [PreventDefault, Zoom (camera_zoom s / 2) a, Invalidate]\<rparr>
       \<and> zoomOut a (preventDefault s) =
           s\<lparr>calls := calls s @ [PreventDefault, Zoom (- camera_zoom s / 2) a, Invalidate]\<rparr>" for a
    by (cases "cameraRef s")
      (simp_all add: frame_def dispose_cleanup_def zoomIn_def zoomOut_def preventDefault_def
        optional_call_def invalidate_def)
  have nul: "cameraRef s = None \<Longrightarrow> frame delta s = s \<and> dispose_cleanup s = s"
    by (simp add: frame_def dispose_cleanup_def optional_call_def)
  show ?thesis
    using att nul by (simp add: Controls_def Let_def keys pi po)
qed

text \<open>A frame of delta 16, the unmount and the zoom-out hotkey, for a camera of zoom 4.\<close>

theorem frame_hotkeys_and_dispose_witness:
  "calls (on_frame (Controls \<lparr>props_mode = None, props_animated = None\<rparr> (first_render 4)) 16
      (attach_ref \<lparr>mouseButtons = \<lparr>left = ROTATE, middle = DOLLY, right = TRUCK, wheel = ZOOM\<rparr>,
          listeners = []\<rparr> (first_render 4))) = [Update 16]
   \<and> calls (unmount_cleanup (Controls \<lparr>props_mode = None, props_animated = None\<rparr> (first_render 4))
      (attach_ref \<lparr>mouseButtons = \<lparr>left = ROTATE, middle = DOLLY, right = TRUCK, wheel = ZOOM\<rparr>,
          listeners = []\<rparr> (first_render 4))) = [Dispose]
   \<and> calls (press_hotkey ''command+shift+o''
        (registered_hotkeys (Controls \<lparr>props_mode = None, props_animated = None\<rparr> (first_render 4)))
      (attach_ref \<lparr>mouseButtons = \<lparr>left = ROTATE, middle = DOLLY, right = TRUCK, wheel = ZOOM\<rparr>,
          listeners = []\<rparr> (first_render 4))) = [PreventDefault, Zoom (- 2) None, Invalidate]
   \<and> calls (on_frame (Controls \<lparr>props_mode = None, props_animated = None\<rparr> (first_render 4)) 16
      (first_render 4)) = []"
  using frame_hotkeys_and_dispose
    [of "\<lparr>props_mode = None, props_animated = None\<rparr>" "first_render 4"
        "attach_ref \<lparr>mouseButtons = \<lparr>left = ROTATE, middle = DOLLY, right = TRUCK, wheel = ZOOM\<rparr>,
          listeners = []\<rparr> (first_render 4)" 16]
    frame_hotkeys_and_dispose
    [of "\<lparr>props_mode = None, props_animated = None\<rparr>" "first_render 4" "first_render 4" 16]
  by (simp add: Let_def attach_ref_def first_render_def)

subsection \<open>The effect for the update and control events\<close>

text \<open>
  C10. A run of the effect with a camera ref that holds a controls instance returns with
  the state as it was: no \<open>update\<close> or \<open>control\<close> listener is added. A run with a
  \<^verbatim>\<open>null\<close> ref throws the TypeError of reading \<^verbatim>\<open>addEventListener\<close> off
  \<^verbatim>\<open>null\<close>.
\<close>

theorem update_control_effect_guard_inverted:
  "let r = Controls props s0
   in (cameraRef s \<noteq> None \<longrightarrow> listen_effect r s = Returned s)
    \<and> (cameraRef s = None \<longrightarrow> listen_effect r s = Thrown TypeError s)"
  by (cases "cameraRef s") (simp_all add: Controls_def Let_def update_control_effect_def)

text \<open>Both runs: after the ref has been attached, and in the state of the first render.\<close>

theorem update_control_effect_guard_inverted_witness:
  "listen_effect (Controls \<lparr>props_mode = None, props_animated = None\<rparr> (first_render 1))
      (attach_ref \<lparr>mouseButtons = \<lparr>left = ROTATE, middle = DOLLY, right = TRUCK, wheel = ZOOM\<rparr>,
          listeners = []\<rparr> (first_render 1))
     = Returned \<lparr>cameraRef =
          Some \<lparr>mouseButtons = \<lparr>left = ROTATE, middle = DOLLY, right = TRUCK, wheel = ZOOM\<rparr>,
            listeners = []\<rparr>,
        camera_zoom = 1, calls = [], holdListeners = [], windowListeners = []\<rparr>
   \<and> listen_effect (Controls \<lparr>props_mode = None, props_animated = None\<rparr> (first_render 1))
      (first_render 1) = Thrown TypeError (first_render 1)"
  using update_control_effect_guard_inverted
    [of "\<lparr>props_mode = None, props_animated = None\<rparr>" "first_render 1"
        "attach_ref \<lparr>mouseButtons = \<lparr>left = ROTATE, middle = DOLLY, right = TRUCK, wheel = ZOOM\<rparr>,
          listeners = []\<rparr> (first_render 1)"]
    update_control_effect_guard_inverted
    [of "\<lparr>props_mode = None, props_animated = None\<rparr>" "first_render 1" "first_render 1"]
  by (simp add: Let_def attach_ref_def first_render_def)

subsection \<open>The left mouse button and the Space key\<close>

text \<open>
  Writing the binding needs a controls instance in the ref: with one the write returns
  and only the left binding of that instance changes, with \<^verbatim>\<open>null\<close> it throws.
\<close>

lemma set_left_attached:
  "cameraRef s = Some controls \<Longrightarrow>
   \<exists>s'. set_left a s = Returned s' \<and> left_button s' = Some a
     \<and> cameraRef s' = Some (controls\<lparr>mouseButtons := (mouseButtons controls)\<lparr>left := a\<rparr>\<rparr>)
     \<and> s' = s\<lparr>cameraRef := cameraRef s'\<rparr>"
  by (simp add: set_left_def left_button_def)

lemma set_left_null:
  "cameraRef s = None \<Longrightarrow> set_left a s = Thrown TypeError s"
  by (simp add: set_left_def)

lemma set_left_twice:
  "set_left a s = Returned s1 \<Longrightarrow> set_left b s1 = Returned s2 \<Longrightarrow> set_left a s2 = Returned s1"
  by (auto simp: set_left_def split: option.splits)

lemma set_left_windowListeners:
  "set_left a s = Returned s' \<Longrightarrow> windowListeners s' = windowListeners s"
  by (auto simp: set_left_def split: option.splits)

text \<open>
  The round trip on the callbacks themselves, for every mode and every state whose ref
  holds a controls instance.
\<close>

lemma space_round_trip:
  assumes "cameraRef s = Some controls"
  shows "\<exists>s1 s2.
          mode_effect mode s = Returned s1
        \<and> left_button s1 = Some (if mode = ''rotate'' then ROTATE else TRUCK)
        \<and> windowListeners s1 = windowListeners s
        \<and> onKeyDown mode \<lparr>code = ''Space''\<rparr> s1 = Returned s2
        \<and> left_button s2 = Some (if mode = ''rotate'' then TRUCK else ROTATE)
        \<and> windowListeners s2 = windowListeners s
        \<and> onKeyUp mode \<lparr>code = ''Space''\<rparr> s2 = Returned s1"
proof -
  let ?d = "if mode = ''rotate'' then ROTATE else TRUCK"
  let ?o = "if mode = ''rotate'' then TRUCK else ROTATE"
  from set_left_attached [OF assms, of ?d] obtain s1 where
    s1: "set_left ?d s = Returned s1" "left_button s1 = Some ?d" and
    c1: "cameraRef s1 = Some (controls\<lparr>mouseButtons := (mouseButtons controls)\<lparr>left := ?d\<rparr>\<rparr>)"
    by blast
  from set_left_attached [OF c1, of ?o] obtain s2 where
    s2: "set_left ?o s1 = Returned s2" "left_button s2 = Some ?o"
    by blast
  from set_left_twice [OF s1(1) s2(1)] have s3: "set_left ?d s2 = Returned s1" .
  have w1: "windowListeners s1 = windowListeners s"
    using s1(1) by (rule set_left_windowListeners)
  have w2: "windowListeners s2 = windowListeners s"
    using set_left_windowListeners [OF s2(1)] w1 by simp
  have "mode_effect mode s = Returned s1"
    using s1(1) by (simp add: mode_effect_def split: if_splits)
  moreover have "onKeyDown mode \<lparr>code = ''Space''\<rparr> s1 = Returned s2"
    using s2(1) by (simp add: onKeyDown_def split: if_splits)
  moreover have "onKeyUp mode \<lparr>code = ''Space''\<rparr> s2 = Returned s1"
    using s3 by (simp add: onKeyUp_def split: if_splits)
  ultimately show ?thesis using s1(2) s2(2) w1 w2 by blast
qed

text \<open>The window listeners after the key effect of a render, and what a dispatch runs.\<close>

lemma window_listeners_fresh:
  "windowListeners s = [] \<Longrightarrow>
   windowListeners (key_listener_effect pl pr pu pd kd ku s) = [(''keydown'', kd), (''keyup'', ku)]"
  by (simp add: key_listener_effect_def addEventListener_def)

lemma cameraRef_key_listener_effect:
  "cameraRef (key_listener_effect pl pr pu pd kd ku s) = cameraRef s"
  by (simp add: key_listener_effect_def)

lemma dispatch_window_mounted:
  assumes "windowListeners s = [(''keydown'', kd), (''keyup'', ku)]"
  shows "run_key_listener kd event s = Returned s' \<Longrightarrow>
           dispatch_window ''keydown'' event s = ([], s')"
    and "run_key_listener ku event s = Returned s' \<Longrightarrow>
           dispatch_window ''keyup'' event s = ([], s')"
  using assms by (simp_all add: dispatch_window_def)

text \<open>
  C7, as stated, fails in the state of the first render, where the camera ref is still
  \<^verbatim>\<open>null\<close>: the mode effect of the component throws a TypeError and binds nothing
  (there is no left button to read), and so do the Space keydown and keyup callbacks.
\<close>

theorem space_null_ref_throws:
  "binding_effect (Controls \<lparr>props_mode = None, props_animated = None\<rparr> (first_render 1))
      (first_render 1) = Thrown TypeError (first_render 1)
   \<and> left_button (first_render 1) = None
   \<and> onKeyDown ''rotate'' \<lparr>code = ''Space''\<rparr> (first_render 1) = Thrown TypeError (first_render 1)
   \<and> onKeyUp ''rotate'' \<lparr>code = ''Space''\<rparr> (first_render 1) = Thrown TypeError (first_render 1)"
  by (simp add: Controls_def Let_def mode_of_def defaultProps_mode_def mode_effect_def
      onKeyDown_def onKeyUp_def set_left_def left_button_def first_render_def)

text \<open>
  C7, amended. The mode of a render is the \<open>mode\<close> prop, and \<open>rotate\<close> when the
  prop is left out. For every props value and every state whose camera ref holds a
  controls instance: the mode effect of the component binds the left button to
  \<open>ROTATE\<close> when the mode is \<open>rotate\<close> and to \<open>TRUCK\<close> otherwise; the
  component's keydown callback, called with a Space event, then binds it to the other of
  the two; its keyup callback, called with a Space event after that, gives back the very
  state the mode effect left, so that the mode effect followed by a Space keydown and a
  Space keyup is the mode effect. The same holds through the window: after the key
  effect and the mode effect of a render have run (with no listener on the window
  before), a Space \<open>keydown\<close> event dispatched on the window binds the left button to
  the other action, and a Space \<open>keyup\<close> event dispatched after it restores the state
  the mode effect left, no listener throwing.
\<close>

theorem space_toggles_left_button:
  "let r = Controls props s0;
       mode = mode_of props;
       space = \<lparr>code = ''Space''\<rparr>
   in mode_of \<lparr>props_mode = None, props_animated = animated\<rparr> = ''rotate''
    \<and> mode_of \<lparr>props_mode = Some m, props_animated = animated\<rparr> = m
    \<and> (cameraRef s \<noteq> None \<longrightarrow>
         (\<exists>s1 s2.
            binding_effect r s = Returned s1
          \<and> left_button s1 = Some (if mode = ''rotate'' then ROTATE else TRUCK)
          \<and> run_key_listener (OnKeyDown mode) space s1 = Returned s2
          \<and> left_button s2 = Some (if mode = ''rotate'' then TRUCK else ROTATE)
          \<and> run_key_listener (OnKeyUp mode) space s2 = Returned s1
          \<and> and_then (and_then (binding_effect r s) (onKeyDown mode space)) (onKeyUp mode space)
              = binding_effect r s))
    \<and> (cameraRef s \<noteq> None \<and> windowListeners s = [] \<longrightarrow>
         (\<exists>s1 s2.
            binding_effect r (key_effect r s) = Returned s1
          \<and> left_button s1 = Some (if mode = ''rotate'' then ROTATE else TRUCK)
          \<and> dispatch_window ''keydown'' space s1 = ([], s2)
          \<and> left_button s2 = Some (if mode = ''rotate'' then TRUCK else ROTATE)
          \<and> dispatch_window ''keyup'' space s2 = ([], s1)))"
proof -
  define mode where "mode = mode_of props"
  define a where "a = props_animated props"
  define space where "space = \<lparr>code = ''Space''\<rparr>"
  have r: "binding_effect (Controls props s0) = mode_effect mode"
    "key_effect (Controls props s0) =
       key_listener_effect (PanLeft a) (PanRight a) (PanUp a) (PanDown a)
         (OnKeyDown mode) (OnKeyUp mode)"
    by (simp_all add: Controls_def Let_def mode_def a_def)
  have defaults: "mode_of \<lparr>props_mode = None, props_animated = animated\<rparr> = ''rotate''"
    "mode_of \<lparr>props_mode = Some m, props_animated = animated\<rparr> = m"
    by (simp_all add: mode_of_def defaultProps_mode_def)
  have direct: "\<exists>s1 s2.
            mode_effect mode s = Returned s1
          \<and> left_button s1 = Some (if mode = ''rotate'' then ROTATE else TRUCK)
          \<and> run_key_listener (OnKeyDown mode) space s1 = Returned s2
          \<and> left_button s2 = Some (if mode = ''rotate'' then TRUCK else ROTATE)
          \<and> run_key_listener (OnKeyUp mode) space s2 = Returned s1
          \<and> and_then (and_then (mode_effect mode s) (onKeyDown mode space)) (onKeyUp mode space)
              = mode_effect mode s"
    if "cameraRef s \<noteq> None"
  proof -
    from that obtain controls where "cameraRef s = Some controls" by auto
    from space_round_trip [OF this, of mode] show ?thesis
      unfolding space_def by fastforce
  qed
  have mounted: "\<exists>s1 s2.
            mode_effect mode (key_listener_effect (PanLeft a) (PanRight a) (PanUp a) (PanDown a)
              (OnKeyDown mode) (OnKeyUp mode) s) = Returned s1
          \<and> left_button s1 = Some (if mode = ''rotate'' then ROTATE else TRUCK)
          \<and> dispatch_window ''keydown'' space s1 = ([], s2)
          \<and> left_button s2 = Some (if mode = ''rotate'' then TRUCK else ROTATE)
          \<and> dispatch_window ''keyup'' space s2 = ([], s1)"
    if "cameraRef s \<noteq> None" "windowListeners s = []"
  proof -
    let ?m = "key_listener_effect (PanLeft a) (PanRight a) (PanUp a) (PanDown a)
              (OnKeyDown mode) (OnKeyUp mode) s"
    from that(1) obtain controls where "cameraRef ?m = Some controls"
      by (auto simp: cameraRef_key_listener_effect)
    from space_round_trip [OF this, of mode] obtain s1 s2 where
      s: "mode_effect mode ?m = Returned s1"
        "left_button s1 = Some (if mode = ''rotate'' then ROTATE else TRUCK)"
        "windowListeners s1 = windowListeners ?m"
        "onKeyDown mode \<lparr>code = ''Space''\<rparr> s1 = Returned s2"
        "left_button s2 = Some (if mode = ''rotate'' then TRUCK else ROTATE)"
        "windowListeners s2 = windowListeners ?m"
        "onKeyUp mode \<lparr>code = ''Space''\<rparr> s2 = Returned s1"
      by blast
    have w: "windowListeners ?m = [(''keydown'', OnKeyDown mode), (''keyup'', OnKeyUp mode)]"
      using that(2) by (rule window_listeners_fresh)
    have "dispatch_window ''keydown'' space s1 = ([], s2)"
      using dispatch_window_mounted(1) [of s1 "OnKeyDown mode" "OnKeyUp mode" space s2] s w
      by (simp add: space_def)
    moreover have "dispatch_window ''keyup'' space s2 = ([], s1)"
      using dispatch_window_mounted(2) [of s2 "OnKeyDown mode" "OnKeyUp mode" space s1] s w
      by (simp add: space_def)
    ultimately show ?thesis using s(1,2,5) by blast
  qed
  show ?thesis
    unfolding Let_def r mode_def [symmetric] space_def [symmetric]
    using defaults direct mounted by blast
qed

text \<open>
  Mounting with \<open>mode = pan\<close> on an instance whose left button was bound to
  \<open>ROTATE\<close>: \<open>TRUCK\<close> after the mode effect, \<open>ROTATE\<close> while Space is down,
  and the state after the mode effect again once Space is up.
\<close>

theorem space_toggles_left_button_witness:
  "(\<exists>s1 s2.
      binding_effect (Controls \<lparr>props_mode = Some ''pan'', props_animated = None\<rparr> (first_render 1))
        (key_effect (Controls \<lparr>props_mode = Some ''pan'', props_animated = None\<rparr> (first_render 1))
          (attach_ref \<lparr>mouseButtons = \<lparr>left = ROTATE, middle = DOLLY, right = TRUCK, wheel = ZOOM\<rparr>,
             listeners = []\<rparr> (first_render 1))) = Returned s1
    \<and> left_button s1 = Some TRUCK
    \<and> dispatch_window ''keydown'' \<lparr>code = ''Space''\<rparr> s1 = ([], s2)
    \<and> left_button s2 = Some ROTATE
    \<and> dispatch_window ''keyup'' \<lparr>code = ''Space''\<rparr> s2 = ([], s1))
   \<and> cameraRef (attach_ref \<lparr>mouseButtons = \<lparr>left = ROTATE, middle = DOLLY, right = TRUCK, wheel = ZOOM\<rparr>,
           listeners = []\<rparr> (first_render 1))
      = Some \<lparr>mouseButtons = \<lparr>left = ROTATE, middle = DOLLY, right = TRUCK, wheel = ZOOM\<rparr>,
           listeners = []\<rparr>
   \<and> windowListeners (attach_ref \<lparr>mouseButtons = \<lparr>left = ROTATE, middle = DOLLY, right = TRUCK, wheel = ZOOM\<rparr>,
           listeners = []\<rparr> (first_render 1)) = []"
proof -
  let ?s = "attach_ref \<lparr>mouseButtons = \<lparr>left = ROTATE, middle = DOLLY, right = TRUCK, wheel = ZOOM\<rparr>,
           listeners = []\<rparr> (first_render 1)"
  have a: "cameraRef ?s
      = Some \<lparr>mouseButtons = \<lparr>left = ROTATE, middle = DOLLY, right = TRUCK, wheel = ZOOM\<rparr>,
           listeners = []\<rparr>" "windowListeners ?s = []"
    by (simp_all add: attach_ref_def first_render_def)
  have m: "mode_of \<lparr>props_mode = Some ''pan'', props_animated = None\<rparr> = ''pan''"
    by (simp add: mode_of_def)
  from space_toggles_left_button
    [of "\<lparr>props_mode = Some ''pan'', props_animated = None\<rparr>" "first_render 1" None "''pan''" ?s]
    a m
  show ?thesis
    by (simp add: Let_def)
qed

subsection \<open>The key listeners\<close>

lemma set_addEventListener: "set (addEventListener l ls) = insert l (set ls)"
  by (auto simp: addEventListener_def)

lemma distinct_addEventListener: "distinct ls \<Longrightarrow> distinct (addEventListener l ls)"
  by (simp add: addEventListener_def)

lemma set_removeEventListener:
  "distinct ls \<Longrightarrow> set (removeEventListener l ls) = set ls - {l}"
  by (simp add: removeEventListener_def)

lemma distinct_removeEventListener: "distinct ls \<Longrightarrow> distinct (removeEventListener l ls)"
  by (simp add: removeEventListener_def)

lemma key_objects_differ:
  "leftKey \<noteq> rightKey" "leftKey \<noteq> upKey" "leftKey \<noteq> downKey"
  "rightKey \<noteq> upKey" "rightKey \<noteq> downKey" "upKey \<noteq> downKey"
  "rightKey \<noteq> leftKey" "upKey \<noteq> leftKey" "downKey \<noteq> leftKey"
  "upKey \<noteq> rightKey" "downKey \<noteq> rightKey" "downKey \<noteq> upKey"
  by (simp_all add: leftKey_def rightKey_def upKey_def downKey_def
      ARROW_LEFT_def ARROW_RIGHT_def ARROW_UP_def ARROW_DOWN_def)

lemma key_effect_registers:
  "set (holdListeners (key_listener_effect pl pr pu pd kd ku s)) =
     {(leftKey, ''holding'', pl), (rightKey, ''holding'', pr), (upKey, ''holding'', pu),
      (downKey, ''holding'', pd)} \<union> set (holdListeners s)"
  "set (windowListeners (key_listener_effect pl pr pu pd kd ku s)) =
     {(''keydown'', kd), (''keyup'', ku)} \<union> set (windowListeners s)"
  by (auto simp: key_listener_effect_def set_addEventListener)

lemma key_effect_distinct:
  "distinct (holdListeners s) \<Longrightarrow> distinct (holdListeners (key_listener_effect pl pr pu pd kd ku s))"
  "distinct (windowListeners s) \<Longrightarrow>
     distinct (windowListeners (key_listener_effect pl pr pu pd kd ku s))"
  by (simp_all add: key_listener_effect_def distinct_addEventListener)

lemma key_cleanup_removes:
  "distinct (holdListeners s) \<Longrightarrow>
   set (holdListeners (key_listener_cleanup pl pr pu pd kd ku s)) =
     set (holdListeners s) - {(leftKey, ''holding'', pl), (rightKey, ''holding'', pr),
       (upKey, ''holding'', pu), (downKey, ''holding'', pd)}"
  "distinct (windowListeners s) \<Longrightarrow>
   set (windowListeners (key_listener_cleanup pl pr pu pd kd ku s)) =
     set (windowListeners s) - {(''keydown'', kd), (''keyup'', ku)}"
  by (auto simp: key_listener_cleanup_def set_removeEventListener distinct_removeEventListener)

lemma key_effect_fresh:
  "holdListeners s = [] \<Longrightarrow>
   holdListeners (key_listener_effect pl pr pu pd kd ku s) =
     [(leftKey, ''holding'', pl), (rightKey, ''holding'', pr), (upKey, ''holding'', pu),
      (downKey, ''holding'', pd)]"
  by (simp add: key_listener_effect_def addEventListener_def key_objects_differ)

lemma dispatch_fresh:
  assumes "holdListeners s = []"
  shows "dispatch_hold leftKey ''holding'' event (key_listener_effect pl pr pu pd kd ku s) =
           run_hold_listener pl event (key_listener_effect pl pr pu pd kd ku s)"
    and "dispatch_hold rightKey ''holding'' event (key_listener_effect pl pr pu pd kd ku s) =
           run_hold_listener pr event (key_listener_effect pl pr pu pd kd ku s)"
    and "dispatch_hold upKey ''holding'' event (key_listener_effect pl pr pu pd kd ku s) =
           run_hold_listener pu event (key_listener_effect pl pr pu pd kd ku s)"
    and "dispatch_hold downKey ''holding'' event (key_listener_effect pl pr pu pd kd ku s) =
           run_hold_listener pd event (key_listener_effect pl pr pu pd kd ku s)"
  by (simp_all add: dispatch_hold_def hold_listeners_of_def key_effect_fresh [OF assms]
      key_objects_differ)

lemma cleanup_restores:
  assumes "(leftKey, ''holding'', pl) \<notin> set (holdListeners s)"
    "(rightKey, ''holding'', pr) \<notin> set (holdListeners s)"
    "(upKey, ''holding'', pu) \<notin> set (holdListeners s)"
    "(downKey, ''holding'', pd) \<notin> set (holdListeners s)"
  shows "holdListeners (key_listener_cleanup pl pr pu pd kd ku
           (key_listener_effect pl pr pu pd kd ku s)) = holdListeners s"
  using assms
  by (simp add: key_listener_cleanup_def key_listener_effect_def addEventListener_def
      removeEventListener_def remove1_append key_objects_differ)

lemma cleanup_restores_window:
  assumes "(''keydown'', kd) \<notin> set (windowListeners s)"
    "(''keyup'', ku) \<notin> set (windowListeners s)"
  shows "windowListeners (key_listener_cleanup pl pr pu pd kd ku
           (key_listener_effect pl pr pu pd kd ku s)) = windowListeners s"
  using assms
  by (simp add: key_listener_cleanup_def key_listener_effect_def addEventListener_def
      removeEventListener_def remove1_append)


lemma hold_listeners_of_mem:
  "(key, ty, l) \<in> set (holdListeners s) \<Longrightarrow> l \<in> set (hold_listeners_of key ty s)"
  by (force simp: hold_listeners_of_def)

text \<open>
  C8. The four key-hold objects watch the arrow keys 37, 39, 38 and 40 with a hold
  interval of 100. After the effect of a render has run, the render's \<open>panLeft\<close>,
  \<open>panRight\<close>, \<open>panUp\<close> and \<open>panDown\<close> are among the \<open>holding\<close> listeners of
  the left, right, up and down key, and its \<open>onKeyDown\<close> and \<open>onKeyUp\<close> are among
  the \<open>keydown\<close> and \<open>keyup\<close> listeners of the window; where nothing else is
  registered on the keys, a \<open>holding\<close> event of a key runs exactly the matching pan
  callback with that event. After the cleanup none of the six is registered any more
  (the listener lists hold no entry twice, as \<open>addEventListener\<close> keeps them), and
  from empty lists the lists are empty again.
\<close>

theorem key_listeners_registered_then_removed:
  "let r = Controls props s0;
       animated = props_animated props;
       mode = mode_of props;
       mounted = key_effect r s;
       unmounted = key_cleanup r mounted
   in map keyCode [leftKey, rightKey, upKey, downKey] = [37, 39, 38, 40]
    \<and> map holdIntervalDelay [leftKey, rightKey, upKey, downKey] = [100, 100, 100, 100]
    \<and> PanLeft animated \<in> set (hold_listeners_of leftKey ''holding'' mounted)
    \<and> PanRight animated \<in> set (hold_listeners_of rightKey ''holding'' mounted)
    \<and> PanUp animated \<in> set (hold_listeners_of upKey ''holding'' mounted)
    \<and> PanDown animated \<in> set (hold_listeners_of downKey ''holding'' mounted)
    \<and> (''keydown'', OnKeyDown mode) \<in> set (windowListeners mounted)
    \<and> (''keyup'', OnKeyUp mode) \<in> set (windowListeners mounted)
    \<and> (holdListeners s = [] \<longrightarrow>
          dispatch_hold leftKey ''holding'' event mounted = panLeft animated event mounted
        \<and> dispatch_hold rightKey ''holding'' event mounted = panRight animated event mounted
        \<and> dispatch_hold upKey ''holding'' event mounted = panUp animated event mounted
        \<and> dispatch_hold downKey ''holding'' event mounted = panDown animated event mounted)
    \<and> (distinct (holdListeners s) \<and> distinct (windowListeners s) \<longrightarrow>
          (leftKey, ''holding'', PanLeft animated) \<notin> set (holdListeners unmounted)
        \<and> (rightKey, ''holding'', PanRight animated) \<notin> set (holdListeners unmounted)
        \<and> (upKey, ''holding'', PanUp animated) \<notin> set (holdListeners unmounted)
        \<and> (downKey, ''holding'', PanDown animated) \<notin> set (holdListeners unmounted)
        \<and> (''keydown'', OnKeyDown mode) \<notin> set (windowListeners unmounted)
        \<and> (''keyup'', OnKeyUp mode) \<notin> set (windowListeners unmounted))
    \<and> (holdListeners s = [] \<and> windowListeners s = [] \<longrightarrow>
          holdListeners unmounted = [] \<and> windowListeners unmounted = [])"
proof -
  define a where "a = props_animated props"
  define m where "m = mode_of props"
  define mounted where
    "mounted = key_listener_effect (PanLeft a) (PanRight a) (PanUp a) (PanDown a)
       (OnKeyDown m) (OnKeyUp m) s"
  define unmounted where
    "unmounted = key_listener_cleanup (PanLeft a) (PanRight a) (PanUp a) (PanDown a)
       (OnKeyDown m) (OnKeyUp m) mounted"
  have codes: "map keyCode [leftKey, rightKey, upKey, downKey] = [37, 39, 38, 40]"
    by (simp add: leftKey_def rightKey_def upKey_def downKey_def
        ARROW_LEFT_def ARROW_RIGHT_def ARROW_UP_def ARROW_DOWN_def)
  have delays: "map holdIntervalDelay [leftKey, rightKey, upKey, downKey] = [100, 100, 100, 100]"
    by (simp add: leftKey_def rightKey_def upKey_def downKey_def)
  have reg: "PanLeft a \<in> set (hold_listeners_of leftKey ''holding'' mounted)"
    "PanRight a \<in> set (hold_listeners_of rightKey ''holding'' mounted)"
    "PanUp a \<in> set (hold_listeners_of upKey ''holding'' mounted)"
    "PanDown a \<in> set (hold_listeners_of downKey ''holding'' mounted)"
    by (simp_all add: hold_listeners_of_mem mounted_def key_effect_registers)
  have win: "(''keydown'', OnKeyDown m) \<in> set (windowListeners mounted)"
    "(''keyup'', OnKeyUp m) \<in> set (windowListeners mounted)"
    by (simp_all add: mounted_def key_effect_registers)
  have fire: "dispatch_hold leftKey ''holding'' event mounted = panLeft a event mounted
        \<and> dispatch_hold rightKey ''holding'' event mounted = panRight a event mounted
        \<and> dispatch_hold upKey ''holding'' event mounted = panUp a event mounted
        \<and> dispatch_hold downKey ''holding'' event mounted = panDown a event mounted"
    if "holdListeners s = []"
    using dispatch_fresh [OF that] by (simp add: mounted_def)
  have gone: "(leftKey, ''holding'', PanLeft a) \<notin> set (holdListeners unmounted)
        \<and> (rightKey, ''holding'', PanRight a) \<notin> set (holdListeners unmounted)
        \<and> (upKey, ''holding'', PanUp a) \<notin> set (holdListeners unmounted)
        \<and> (downKey, ''holding'', PanDown a) \<notin> set (holdListeners unmounted)
        \<and> (''keydown'', OnKeyDown m) \<notin> set (windowListeners unmounted)
        \<and> (''keyup'', OnKeyUp m) \<notin> set (windowListeners unmounted)"
    if "distinct (holdListeners s)" "distinct (windowListeners s)"
  proof -
    from that have "distinct (holdListeners mounted)" "distinct (windowListeners mounted)"
      by (simp_all add: mounted_def key_effect_distinct)
    then show ?thesis
      by (simp add: unmounted_def key_cleanup_removes)
  qed
  have empty: "holdListeners unmounted = [] \<and> windowListeners unmounted = []"
    if "holdListeners s = []" "windowListeners s = []"
    using that cleanup_restores [of "PanLeft a" s "PanRight a" "PanUp a" "PanDown a"]
      cleanup_restores_window [of "OnKeyDown m" s "OnKeyUp m"]
    by (simp add: unmounted_def mounted_def)
  have r: "key_effect (Controls props s0) s = mounted"
    "key_cleanup (Controls props s0) mounted = unmounted"
    by (simp_all add: Controls_def Let_def mounted_def unmounted_def a_def m_def)
  show ?thesis
    unfolding Let_def r a_def [symmetric] m_def [symmetric]
    using codes delays reg win fire gone empty by blast
qed

text \<open>
  Mounting with \<open>mode = pan\<close>, \<open>animated = false\<close>: the up key held for a
  \<open>deltaTime\<close> of 100 trucks by \<open>(0, 3)\<close>; unmounting leaves no listener.
\<close>

theorem key_listeners_registered_then_removed_witness:
  "calls (dispatch_hold upKey ''holding'' \<lparr>deltaTime = 100\<rparr>
      (key_effect (Controls \<lparr>props_mode = Some ''pan'', props_animated = Some False\<rparr> (first_render 1))
        (attach_ref \<lparr>mouseButtons = \<lparr>left = ROTATE, middle = DOLLY, right = TRUCK, wheel = ZOOM\<rparr>,
           listeners = []\<rparr> (first_render 1))))
     = [Truck 0 3 (Some False), Invalidate]
   \<and> windowListeners
      (key_effect (Controls \<lparr>props_mode = Some ''pan'', props_animated = Some False\<rparr> (first_render 1))
        (attach_ref \<lparr>mouseButtons = \<lparr>left = ROTATE, middle = DOLLY, right = TRUCK, wheel = ZOOM\<rparr>,
           listeners = []\<rparr> (first_render 1)))
     = [(''keydown'', OnKeyDown ''pan''), (''keyup'', OnKeyUp ''pan'')]
   \<and> holdListeners
      (key_cleanup (Controls \<lparr>props_mode = Some ''pan'', props_animated = Some False\<rparr> (first_render 1))
        (key_effect (Controls \<lparr>props_mode = Some ''pan'', props_animated = Some False\<rparr> (first_render 1))
          (attach_ref \<lparr>mouseButtons = \<lparr>left = ROTATE, middle = DOLLY, right = TRUCK, wheel = ZOOM\<rparr>,
             listeners = []\<rparr> (first_render 1))))
     = []
   \<and> windowListeners
      (key_cleanup (Controls \<lparr>props_mode = Some ''pan'', props_animated = Some False\<rparr> (first_render 1))
        (key_effect (Controls \<lparr>props_mode = Some ''pan'', props_animated = Some False\<rparr> (first_render 1))
          (attach_ref \<lparr>mouseButtons = \<lparr>left = ROTATE, middle = DOLLY, right = TRUCK, wheel = ZOOM\<rparr>,
             listeners = []\<rparr> (first_render 1))))
     = []"
proof -
  let ?s = "attach_ref \<lparr>mouseButtons = \<lparr>left = ROTATE, middle = DOLLY, right = TRUCK, wheel = ZOOM\<rparr>,
           listeners = []\<rparr> (first_render 1)"
  let ?p = "\<lparr>props_mode = Some ''pan'', props_animated = Some False\<rparr>"
  have fresh: "holdListeners ?s = []" "windowListeners ?s = []" "cameraRef ?s \<noteq> None"
    "calls ?s = []"
    by (simp_all add: attach_ref_def first_render_def)
  have mounted: "cameraRef (key_effect (Controls ?p (first_render 1)) ?s) \<noteq> None"
    "calls (key_effect (Controls ?p (first_render 1)) ?s) = []"
    "windowListeners (key_effect (Controls ?p (first_render 1)) ?s)
       = [(''keydown'', OnKeyDown ''pan''), (''keyup'', OnKeyUp ''pan'')]"
    using fresh
    by (simp_all add: Controls_def Let_def key_listener_effect_def addEventListener_def
        mode_of_def)
  from key_listeners_registered_then_removed [of ?p "first_render 1" ?s "\<lparr>deltaTime = 100\<rparr>"]
    fresh
  have "dispatch_hold upKey ''holding'' \<lparr>deltaTime = 100\<rparr>
          (key_effect (Controls ?p (first_render 1)) ?s)
        = panUp (Some False) \<lparr>deltaTime = 100\<rparr> (key_effect (Controls ?p (first_render 1)) ?s)"
    and "holdListeners (key_cleanup (Controls ?p (first_render 1))
          (key_effect (Controls ?p (first_render 1)) ?s)) = []"
    and "windowListeners (key_cleanup (Controls ?p (first_render 1))
          (key_effect (Controls ?p (first_render 1)) ?s)) = []"
    by (simp_all add: Let_def)
  with mounted show ?thesis
    by (auto simp: panUp_def optional_call_def invalidate_def)
qed

end
